theory Spec2Isabelle
  imports Main "HOL-Library.Word"
begin

section \<open>The modem reference clock driver (ntpd/refclock_modem.c)\<close>

text \<open>
  A shallow embedding of the dial-up time service driver: the line framer
  \<open>modem_receive\<close>, the message handler \<open>modem_message\<close>, the timeout handler
  \<open>modem_timeout\<close>, the close sequence \<open>modem_close\<close>, the poll and timer entry points
  and the timecode parser \<open>modem_timecode\<close>.  The three C structures the driver works on
  (\<open>struct modemunit\<close>, \<open>struct refclockproc\<close>, \<open>struct peer\<close>) are one record that every
  function takes and returns; each call of a routine outside the driver is appended to
  the field \<open>trace\<close>, in program order.
\<close>

subsection \<open>Character classes of the C locale\<close>

definition isspace_c :: "char \<Rightarrow> bool" where
  "isspace_c c = (c = CHR '' '' \<or> (9 \<le> (of_char c :: nat) \<and> (of_char c :: nat) \<le> 13))"

definition iscntrl_c :: "char \<Rightarrow> bool" where
  "iscntrl_c c = ((of_char c :: nat) < 32 \<or> (of_char c :: nat) = 127)"

definition isdigit_c :: "char \<Rightarrow> bool" where
  "isdigit_c c = (48 \<le> (of_char c :: nat) \<and> (of_char c :: nat) \<le> 57)"

definition isxdigit_c :: "char \<Rightarrow> bool" where
  "isxdigit_c c = (isdigit_c c \<or> c \<in> set ''abcdefABCDEF'')"

definition tolower_c :: "char \<Rightarrow> char" where
  "tolower_c c = (if 65 \<le> (of_char c :: nat) \<and> (of_char c :: nat) \<le> 90
                  then char_of ((of_char c :: nat) + 32) else c)"

definition digit_val :: "char \<Rightarrow> nat" where
  "digit_val c = (of_char c :: nat) - 48"

subsection \<open>The C library's sscanf, for the directives the driver uses\<close>

text \<open>
  The parser reads every timecode with \<open>sscanf\<close>.  The model follows the GNU C library:
  a white-space directive skips any white space, an ordinary character must match the
  next input character, and a conversion \<open>%[*][width][l]c\<close> with \<open>c\<close> one of
  \<open>d u f s c\<close> skips white space (not for \<open>%c\<close>), reads at most \<open>width\<close> characters and
  converts them.  The result is the C return value (the number of assignments, or -1
  when the input ends before the first assignment) and the assigned values in order.
  The two \<open>double\<close> results are never read by the driver, so a floating-point conversion
  keeps the matched text instead of a value.
\<close>

datatype directive =
    Space
  | Lit char
  | Pct bool nat bool char
    \<comment> \<open>assignment suppressed, field width (0: none given), \<open>l\<close> modifier, conversion\<close>

fun parse_fmt :: "string \<Rightarrow> directive list"
  and parse_conv :: "bool \<Rightarrow> nat \<Rightarrow> bool \<Rightarrow> string \<Rightarrow> directive list" where
  "parse_fmt [] = []"
| "parse_fmt (c # cs) =
     (if c = CHR ''%'' then parse_conv False 0 False cs
      else if isspace_c c then Space # parse_fmt cs
      else Lit c # parse_fmt cs)"
| "parse_conv star w lng [] = []"
| "parse_conv star w lng (c # cs) =
     (if c = CHR ''*'' then parse_conv True w lng cs
      else if isdigit_c c then parse_conv star (10 * w + digit_val c) lng cs
      else if c = CHR ''l'' then parse_conv star w True cs
      else Pct star w lng c # parse_fmt cs)"

datatype scanval = VInt int | VFlt string | VStr string | VChr char

datatype 'a item = Matched 'a string | MatchFail | InputFail

fun take_digits :: "nat \<Rightarrow> string \<Rightarrow> string \<times> string" where
  "take_digits 0 s = ([], s)"
| "take_digits (Suc w) [] = ([], [])"
| "take_digits (Suc w) (c # cs) =
     (if isdigit_c c then (case take_digits w cs of (ds, r) \<Rightarrow> (c # ds, r))
      else ([], c # cs))"

definition digits_val :: "string \<Rightarrow> int" where
  "digits_val ds = foldl (\<lambda>a c. 10 * a + int (digit_val c)) 0 ds"

text \<open>
  \<open>%d\<close> and \<open>%u\<close>: an optional sign, which counts in the field width, then decimal
  digits.  A field width of 0 stands for no width.
\<close>

definition scan_int :: "nat \<Rightarrow> string \<Rightarrow> int item" where
  "scan_int w s0 =
     (let s = dropWhile isspace_c s0;
          wd = (if w = 0 then length s else w)
      in case s of
           [] \<Rightarrow> InputFail
         | c # cs \<Rightarrow>
             (let sgn = (c = CHR ''-'' \<or> c = CHR ''+'');
                  (ds, r) = (if sgn then take_digits (wd - 1) cs else take_digits wd s)
              in if ds = [] then MatchFail
                 else Matched ((if c = CHR ''-'' then - digits_val ds else digits_val ds)) r))"

text \<open>
  \<open>%f\<close>, as the GNU C library reads it.  After an optional sign the conversion takes
  \<open>nan\<close>, or \<open>inf\<close> (and then \<open>infinity\<close> in full when an \<open>i\<close> follows), in either case of
  letters, or it gathers the characters of a number: digits, one decimal point, and
  one exponent letter after a digit with a sign directly behind it; behind \<open>0x\<close>, when the
  width leaves room for a further character, hexadecimal digits with the exponent
  letter \<open>p\<close>.  Every character gathered is consumed.  The conversion succeeds when
  \<open>strtod\<close> converts a prefix of what was gathered: the text has to begin with a digit,
  or with a point followed by a digit, and \<open>0x\<close> alone is refused.  So \<open>5e\<close> and \<open>045.E\<close>
  are converted whole, and \<open>nan()\<close> is \<open>nan\<close> followed by two further characters.
\<close>

fun kw_match :: "string \<Rightarrow> nat \<Rightarrow> string \<Rightarrow> string option" where
  "kw_match [] w s = Some s"
| "kw_match (k # ks) w [] = None"
| "kw_match (k # ks) 0 (c # cs) = None"
| "kw_match (k # ks) (Suc w) (c # cs) =
     (if tolower_c c = k then kw_match ks w cs else None)"

text \<open>
  The loop over the characters of a number: \<open>w\<close> characters may still be read; the flags
  say whether the number is hexadecimal, whether a digit, a point (or an exponent) and
  an exponent were seen, and whether the last character was the exponent letter.
\<close>

fun fcollect ::
  "nat \<Rightarrow> bool \<Rightarrow> bool \<Rightarrow> bool \<Rightarrow> bool \<Rightarrow> bool \<Rightarrow> string \<Rightarrow> string \<times> string" where
  "fcollect 0 hexa got_digit got_dot got_e at_exp s = ([], s)"
| "fcollect (Suc w) hexa got_digit got_dot got_e at_exp [] = ([], [])"
| "fcollect (Suc w) hexa got_digit got_dot got_e at_exp (c # cs) =
     (if isdigit_c c \<or> (\<not> got_e \<and> hexa \<and> isxdigit_c c) then
        (case fcollect w hexa True got_dot got_e False cs of (t, r) \<Rightarrow> (c # t, r))
      else if got_e \<and> at_exp \<and> (c = CHR ''+'' \<or> c = CHR ''-'') then
        (case fcollect w hexa got_digit got_dot got_e False cs of (t, r) \<Rightarrow> (c # t, r))
      else if got_digit \<and> \<not> got_e \<and> tolower_c c = (if hexa then CHR ''p'' else CHR ''e'') then
        (case fcollect w hexa got_digit True True True cs of (t, r) \<Rightarrow> (c # t, r))
      else if c = CHR ''.'' \<and> \<not> got_dot then
        (case fcollect w hexa got_digit True got_e False cs of (t, r) \<Rightarrow> (c # t, r))
      else ([], c # cs))"

fun strtod_ok :: "string \<Rightarrow> bool" where
  "strtod_ok [] = False"
| "strtod_ok [c] = isdigit_c c"
| "strtod_ok (c # d # t) = (isdigit_c c \<or> (c = CHR ''.'' \<and> isdigit_c d))"

text \<open>
  The conversion behind the sign, on at most \<open>wd\<close> characters; the result is the input
  left over, or \<open>None\<close> for a matching failure.
\<close>

fun float_body :: "nat \<Rightarrow> string \<Rightarrow> string option" where
  "float_body wd [] = None"
| "float_body wd (c # cs) =
     (if tolower_c c = CHR ''n'' then kw_match ''an'' (wd - 1) cs
      else if tolower_c c = CHR ''i'' then
        (case kw_match ''nf'' (wd - 1) cs of
           None \<Rightarrow> None
         | Some [] \<Rightarrow> Some []
         | Some (i # r) \<Rightarrow>
             if 3 < wd \<and> tolower_c i = CHR ''i'' then kw_match ''nity'' (wd - 4) r
             else Some (i # r))
      else if c = CHR ''0'' then
        (case cs of
           [] \<Rightarrow> Some []
         | x # xs \<Rightarrow>
             if 2 < wd \<and> tolower_c x = CHR ''x'' then
               (case fcollect (wd - 2) True False False False False xs of
                  (t, r) \<Rightarrow> if t = [] then None else Some r)
             else Some (snd (fcollect (wd - 1) False True False False False cs)))
      else
        (case fcollect wd False False False False False (c # cs) of
           (t, r) \<Rightarrow> if strtod_ok t then Some r else None))"

definition scan_float :: "nat \<Rightarrow> string \<Rightarrow> string item" where
  "scan_float w s0 =
     (let s = dropWhile isspace_c s0;
          wd = (if w = 0 then length s else w)
      in case s of
           [] \<Rightarrow> InputFail
         | c # cs \<Rightarrow>
             (case (if c = CHR ''+'' \<or> c = CHR ''-''
                    then (if wd - 1 = 0 \<or> cs = [] then None else float_body (wd - 1) cs)
                    else float_body wd s) of
                None \<Rightarrow> MatchFail
              | Some r \<Rightarrow> Matched (take (length s - length r) s) r))"

text \<open>\<open>%s\<close>: white space is skipped, then characters up to the next white space.\<close>

definition scan_str :: "nat \<Rightarrow> string \<Rightarrow> string item" where
  "scan_str w s0 =
     (let s = dropWhile isspace_c s0;
          wd = (if w = 0 then length s else w);
          tok = takeWhile (\<lambda>c. \<not> isspace_c c) (take wd s)
      in if s = [] then InputFail else Matched tok (drop (length tok) s))"

text \<open>
  \<open>%c\<close>: up to \<open>width\<close> characters (one when no width is given), white space
  included; fewer are taken when the input ends, and input that has ended already is
  an input failure.
\<close>

definition scan_chars :: "nat \<Rightarrow> string \<Rightarrow> string item" where
  "scan_chars w s =
     (let wd = (if w = 0 then 1 else w)
      in if s = [] then InputFail else Matched (take wd s) (drop wd s))"

definition scan_item :: "nat \<Rightarrow> bool \<Rightarrow> char \<Rightarrow> string \<Rightarrow> scanval item" where
  "scan_item w lng cv s =
     (if cv = CHR ''d'' then
        (case scan_int w s of
           Matched v r \<Rightarrow> Matched (VInt v) r | MatchFail \<Rightarrow> MatchFail | InputFail \<Rightarrow> InputFail)
      else if cv = CHR ''u'' then
        (case scan_int w s of
           Matched v r \<Rightarrow> Matched (VInt (v mod (if lng then 2 ^ 64 else 2 ^ 32))) r
         | MatchFail \<Rightarrow> MatchFail | InputFail \<Rightarrow> InputFail)
      else if cv = CHR ''f'' then
        (case scan_float w s of
           Matched t r \<Rightarrow> Matched (VFlt t) r | MatchFail \<Rightarrow> MatchFail | InputFail \<Rightarrow> InputFail)
      else if cv = CHR ''s'' then
        (case scan_str w s of
           Matched t r \<Rightarrow> Matched (VStr t) r | MatchFail \<Rightarrow> MatchFail | InputFail \<Rightarrow> InputFail)
      else if cv = CHR ''c'' then
        (case scan_chars w s of
           Matched t r \<Rightarrow> Matched (VChr (hd t)) r | MatchFail \<Rightarrow> MatchFail
         | InputFail \<Rightarrow> InputFail)
      else MatchFail)"

definition scan_stop :: "bool \<Rightarrow> scanval list \<Rightarrow> int \<times> scanval list" where
  "scan_stop eof vs = (if eof \<and> vs = [] then (- 1, []) else (int (length vs), vs))"

fun scan_dirs :: "directive list \<Rightarrow> string \<Rightarrow> scanval list \<Rightarrow> int \<times> scanval list" where
  "scan_dirs [] s vs = scan_stop False vs"
| "scan_dirs (Space # ds) s vs = scan_dirs ds (dropWhile isspace_c s) vs"
| "scan_dirs (Lit c # ds) s vs =
     (case s of
        [] \<Rightarrow> scan_stop True vs
      | x # xs \<Rightarrow> if x = c then scan_dirs ds xs vs else scan_stop False vs)"
| "scan_dirs (Pct star w lng cv # ds) s vs =
     (case scan_item w lng cv s of
        InputFail \<Rightarrow> scan_stop True vs
      | MatchFail \<Rightarrow> scan_stop False vs
      | Matched v r \<Rightarrow> scan_dirs ds r (if star then vs else vs @ [v]))"

definition sscanf :: "string \<Rightarrow> string \<Rightarrow> int \<times> scanval list" where
  "sscanf str fmt = scan_dirs (parse_fmt fmt) str []"

text \<open>
  What a pointer argument of \<open>sscanf\<close> holds after the call: the \<open>k\<close>-th assigned value
  when the scan got that far, and what it held before otherwise.
\<close>

definition int_arg :: "scanval list \<Rightarrow> nat \<Rightarrow> int \<Rightarrow> int" where
  "int_arg vs k old =
     (if k < length vs then (case vs ! k of VInt i \<Rightarrow> i | _ \<Rightarrow> old) else old)"

definition chr_arg :: "scanval list \<Rightarrow> nat \<Rightarrow> char \<Rightarrow> char" where
  "chr_arg vs k old =
     (if k < length vs then (case vs ! k of VChr c \<Rightarrow> c | _ \<Rightarrow> old) else old)"

subsection \<open>Constants and data of the driver\<close>

type_synonym l_fp = "64 word"

definition LENACTS :: nat where "LENACTS = 50"
definition LENUSNO :: nat where "LENUSNO = 20"
definition LENPTB :: nat where "LENPTB = 78"
definition LENTYPE0 :: nat where "LENTYPE0 = 22"
definition LENTYPE2 :: nat where "LENTYPE2 = 24"
definition LF :: char where "LF = CHR 0x0A"

definition REFACTS :: string where "REFACTS = ''NIST''"
definition REFUSNO :: string where "REFUSNO = ''USNO''"
definition REFPTB :: string where "REFPTB = ''PTB''"
definition REFTYPE :: string where "REFTYPE = ''GPS''"

definition SETUP :: int where "SETUP = 3"
definition REDIAL :: int where "REDIAL = 30"
definition ANSWER :: int where "ANSWER = 60"
definition TIMECODE :: int where "TIMECODE = 60"
definition MAXCODE :: int where "MAXCODE = 20"

definition MODE_BACKUP :: int where "MODE_BACKUP = 0"
definition MODE_AUTO :: int where "MODE_AUTO = 1"
definition MODE_MANUAL :: int where "MODE_MANUAL = 2"

datatype teModemState = S_IDLE | S_SETUP | S_CONNECT | S_MSG

datatype leap_ind = LEAP_NOWARNING | LEAP_ADDSECOND | LEAP_DELSECOND | LEAP_NOTINSYNC

datatype cevnt = CEVNT_BADREPLY | CEVNT_BADTIME

text \<open>What \<open>refclock_process\<close> is handed: the time fields of \<open>struct refclockproc\<close>.\<close>

record sample =
  smp_year :: int
  smp_day :: int
  smp_hour :: int
  smp_minute :: int
  smp_second :: int
  smp_nsec :: int
  smp_leap :: leap_ind
  smp_refid :: string
  smp_lastrec :: l_fp
  smp_lastcode :: string

text \<open>The calls that leave the driver, as they are recorded in \<open>trace\<close>.\<close>

datatype effect =
    Dprint string                \<comment> \<open>the \<open>DPRINT\<close> of the line at the head of \<open>modem_message\<close>\<close>
  | Report_event string          \<comment> \<open>\<open>report_event(PEVNT_CLOCK, peer, text)\<close>\<close>
  | Event_dial int "string option" \<comment> \<open>\<open>mprintf_event\<close> "DIAL #retry phone"\<close>
  | Event_setup string           \<comment> \<open>\<open>mprintf_event\<close> "SETUP string"\<close>
  | Refclock_report cevnt
  | Msyslog string
  | Write_fd int string          \<comment> \<open>\<open>write(pp->io.fd, data, length)\<close>\<close>
  | Ioctl_TIOCMBIS int
  | Ioctl_TIOCMBIC int
  | Open_lockfile
  | Write_lockfile
  | Close_lockfile
  | Unlink_lockfile
  | Refclock_open
  | Io_addclock int
  | Io_closeclock int
  | Close_fd int
  | Refclock_process sample
  | Record_clock_stats string
  | Refclock_receive

text \<open>
  The unit structure \<open>struct modemunit\<close> (fields \<open>up_\<close>), the fields of
  \<open>struct refclockproc\<close> the driver uses (fields \<open>pp_\<close>) and those of \<open>struct peer\<close>
  (fields \<open>peer_\<close>).  \<open>up_buf\<close> is the part of \<open>buf\<close> below \<open>bufptr\<close>; \<open>pp_flag1\<close> and
  \<open>pp_flag2\<close> are the bits \<open>CLK_FLAG1\<close> and \<open>CLK_FLAG2\<close> of \<open>sloppyclockflag\<close>; \<open>pp_fd\<close> is
  \<open>io.fd\<close>, with -1 for a closed device.  The C \<open>int\<close> fields are integers: the
  counters move by one from small values (the message count is checked against
  \<open>MAXCODE\<close> before every call of the parser) and the scanned fields have at most five
  digits, so no operation of the driver reaches the limits of \<open>int\<close>.
\<close>

record modem =
  up_state :: teModemState
  up_timer :: int
  up_retry :: int
  up_msgcnt :: int
  up_tstamp :: l_fp
  up_buf :: string
  pp_fd :: int
  pp_flag1 :: bool
  pp_flag2 :: bool
  pp_year :: int
  pp_day :: int
  pp_hour :: int
  pp_minute :: int
  pp_second :: int
  pp_nsec :: int
  pp_leap :: leap_ind
  pp_refid :: string
  pp_lastrec :: l_fp
  pp_lastref :: l_fp
  pp_a_lastcode :: string
  pp_lencode :: int
  pp_polls :: int
  peer_refid :: string
  peer_sst_telephone :: bool
  peer_ttl :: int
  trace :: "effect list"

text \<open>
  What the driver takes from outside \<open>refclock_modem.c\<close>: the macro \<open>BMAX\<close> (the size of
  the line buffers), the phone list \<open>sys_phone\<close>, the setup string \<open>modem_setup\<close>, the
  calendar conversion \<open>ymd2yd\<close>, the answer of \<open>refclock_process\<close>, and the outcome of
  the system calls: whether the exclusive creation of the lock file succeeds, the
  descriptor \<open>refclock_open\<close> returns (negative on failure), whether \<open>io_addclock\<close>,
  \<open>write\<close> and \<open>ioctl\<close> succeed, and whether \<open>sys_peer\<close> is null or this peer.
\<close>

record env =
  BMAX :: nat
  sys_phone :: "string list"
  modem_setup :: string
  ymd2yd :: "int \<Rightarrow> int \<Rightarrow> int \<Rightarrow> int"
  refclock_process :: "sample \<Rightarrow> bool"
  lock_open_ok :: bool
  refclock_open :: int
  io_addclock :: bool
  write_ok :: bool
  ioctl_ok :: bool
  sys_peer_free :: bool

text \<open>
  \<open>sys_phone[i]\<close>: the list ends with a null pointer, which is \<open>None\<close> here, as is every
  entry behind it.
\<close>

definition phone :: "env \<Rightarrow> int \<Rightarrow> string option" where
  "phone e i = (if 0 \<le> i \<and> nat i < length (sys_phone e) then Some (sys_phone e ! nat i) else None)"

definition log :: "effect list \<Rightarrow> modem \<Rightarrow> modem" where
  "log es s = s\<lparr>trace := trace s @ es\<rparr>"

text \<open>
  \<open>write(pp->io.fd, data, n)\<close> followed by the \<open>msyslog\<close> of its failure; a write to the
  closed descriptor -1 fails.
\<close>

definition write_fd :: "env \<Rightarrow> string \<Rightarrow> string \<Rightarrow> modem \<Rightarrow> modem" where
  "write_fd e dat msg s =
     log (Write_fd (pp_fd s) dat #
          (if write_ok e \<and> pp_fd s \<noteq> - 1 then [] else [Msyslog msg])) s"

text \<open>\<open>strlcpy(dst, src, size)\<close>: at most \<open>size - 1\<close> characters are copied.\<close>

definition strlcpy :: "string \<Rightarrow> nat \<Rightarrow> string" where
  "strlcpy src sz = take (sz - 1) src"

definition sample_of :: "modem \<Rightarrow> sample" where
  "sample_of s =
     \<lparr>smp_year = pp_year s, smp_day = pp_day s, smp_hour = pp_hour s,
      smp_minute = pp_minute s, smp_second = pp_second s, smp_nsec = pp_nsec s,
      smp_leap = pp_leap s, smp_refid = pp_refid s, smp_lastrec = pp_lastrec s,
      smp_lastcode = pp_a_lastcode s\<rparr>"

subsection \<open>The timecode parser\<close>

text \<open>
  The statements of \<open>modem_timecode\<close> behind its \<open>switch\<close>: the reference identifier and
  the on-time timestamp are copied, and unless the message count is 0 the line becomes
  the last code and the sample goes to \<open>refclock_process\<close>.
\<close>

definition timecode_valid :: "env \<Rightarrow> string \<Rightarrow> modem \<Rightarrow> modem" where
  "timecode_valid e str s0 =
     (let s1 = s0\<lparr>peer_refid := pp_refid s0, pp_lastrec := up_tstamp s0\<rparr>
      in if up_msgcnt s1 = 0 then s1
         else
           (let s2 = s1\<lparr>pp_a_lastcode := strlcpy str (BMAX e)\<rparr>;
                s3 = s2\<lparr>pp_lencode := int (length (pp_a_lastcode s2))\<rparr>;
                s4 = log [Refclock_process (sample_of s3)] s3
            in if \<not> refclock_process e (sample_of s3)
               then log [Refclock_report CEVNT_BADTIME] s4
               else s4\<lparr>pp_lastref := pp_lastrec s4\<rparr>))"

text \<open>
  \<open>case LENACTS\<close>.  The local variables of the C function are not initialised; they are
  read only when all thirteen conversions were done, so the value given for an
  unassigned one is never used.
\<close>

definition timecode_acts :: "env \<Rightarrow> string \<Rightarrow> modem \<Rightarrow> modem" where
  "timecode_acts e str s =
     (let (n, vs) = sscanf str ''%5lu %2d-%2d-%2d %2d:%2d:%2d %2u %1u %3lf %5lf %9s %c'';
          s1 = s\<lparr>pp_year := int_arg vs 1 (pp_year s), pp_hour := int_arg vs 4 (pp_hour s),
                 pp_minute := int_arg vs 5 (pp_minute s),
                 pp_second := int_arg vs 6 (pp_second s)\<rparr>
      in if n \<noteq> 13 then log [Refclock_report CEVNT_BADREPLY] s1
         else
           (let month = int_arg vs 2 0;
                day = int_arg vs 3 0;
                leap = int_arg vs 8 0;
                flag = chr_arg vs 12 (CHR 0x00);
                s2 = s1\<lparr>pp_day := ymd2yd e (pp_year s1) month day\<rparr>;
                s3 = s2\<lparr>pp_leap := (if leap = 1 then LEAP_ADDSECOND
                                      else if leap = 2 then LEAP_DELSECOND
                                      else LEAP_NOWARNING)\<rparr>;
                s4 = s3\<lparr>pp_refid := REFACTS, peer_sst_telephone := True,
                        up_msgcnt := up_msgcnt s3 + 1\<rparr>
            in if flag \<noteq> CHR ''#'' \<and> up_msgcnt s4 < 10 then s4
               else timecode_valid e str s4))"

text \<open>\<open>case LENUSNO\<close>.\<close>

definition timecode_usno :: "env \<Rightarrow> string \<Rightarrow> modem \<Rightarrow> modem" where
  "timecode_usno e str s =
     (let (n, vs) = sscanf str ''%5lu %3d %2d%2d%2d %3s'';
          s1 = s\<lparr>pp_day := int_arg vs 1 (pp_day s), pp_hour := int_arg vs 2 (pp_hour s),
                 pp_minute := int_arg vs 3 (pp_minute s),
                 pp_second := int_arg vs 4 (pp_second s)\<rparr>
      in if n \<noteq> 6 then log [Refclock_report CEVNT_BADREPLY] s1
         else
           (let s2 = s1\<lparr>pp_leap := LEAP_NOWARNING, pp_refid := REFUSNO,
                        peer_sst_telephone := True, up_msgcnt := up_msgcnt s1 + 1\<rparr>
            in timecode_valid e str s2))"

text \<open>\<open>case LENPTB\<close>.\<close>

definition timecode_ptb :: "env \<Rightarrow> string \<Rightarrow> modem \<Rightarrow> modem" where
  "timecode_ptb e str s =
     (let (n, vs) = sscanf str
            ''%*4d-%*2d-%*2d %*2d:%*2d:%2d %*5c%*12c%4d%2d%2d%2d%2d%5lu%2lf%c%2d%3lf%*15c%c'';
          s1 = s\<lparr>pp_second := int_arg vs 0 (pp_second s), pp_year := int_arg vs 1 (pp_year s),
                 pp_hour := int_arg vs 4 (pp_hour s),
                 pp_minute := int_arg vs 5 (pp_minute s)\<rparr>
      in if n \<noteq> 12 then log [Refclock_report CEVNT_BADREPLY] s1
         else
           (let month = int_arg vs 2 0;
                day = int_arg vs 3 0;
                leapdir = chr_arg vs 8 (CHR 0x00);
                leapmonth = int_arg vs 9 0;
                s2 = s1\<lparr>pp_leap := (if leapmonth = month
                                      then (if leapdir = CHR ''+'' then LEAP_ADDSECOND
                                            else if leapdir = CHR ''-'' then LEAP_DELSECOND
                                            else LEAP_NOWARNING)
                                      else LEAP_NOWARNING)\<rparr>;
                s3 = s2\<lparr>pp_day := ymd2yd e (pp_year s2) month day\<rparr>;
                s4 = s3\<lparr>pp_refid := REFPTB, peer_sst_telephone := True,
                        up_msgcnt := up_msgcnt s3 + 1\<rparr>
            in timecode_valid e str s4))"

text \<open>\<open>case LENTYPE0\<close>.\<close>

definition timecode_type0 :: "env \<Rightarrow> string \<Rightarrow> modem \<Rightarrow> modem" where
  "timecode_type0 e str s =
     (let (n, vs) = sscanf str ''%c %3d %2d:%2d:%2d %cTZ=%2d'';
          s1 = s\<lparr>pp_day := int_arg vs 1 (pp_day s), pp_hour := int_arg vs 2 (pp_hour s),
                 pp_minute := int_arg vs 3 (pp_minute s),
                 pp_second := int_arg vs 4 (pp_second s)\<rparr>
      in if n \<noteq> 7 then log [Refclock_report CEVNT_BADREPLY] s1
         else
           (let synchar = chr_arg vs 0 (CHR 0x00);
                s2 = s1\<lparr>pp_leap := (if synchar \<noteq> CHR '' '' then LEAP_NOTINSYNC
                                      else LEAP_NOWARNING)\<rparr>;
                s3 = s2\<lparr>pp_refid := REFTYPE, peer_sst_telephone := True,
                        up_msgcnt := up_msgcnt s2 + 1\<rparr>
            in timecode_valid e str s3))"

text \<open>\<open>case LENTYPE2\<close>.\<close>

definition timecode_type2 :: "env \<Rightarrow> string \<Rightarrow> modem \<Rightarrow> modem" where
  "timecode_type2 e str s =
     (let (n, vs) = sscanf str ''%c%c%2d %3d %2d:%2d:%2d.%3ld%c%c%c'';
          s1 = s\<lparr>pp_year := int_arg vs 2 (pp_year s), pp_day := int_arg vs 3 (pp_day s),
                 pp_hour := int_arg vs 4 (pp_hour s),
                 pp_minute := int_arg vs 5 (pp_minute s),
                 pp_second := int_arg vs 6 (pp_second s),
                 pp_nsec := int_arg vs 7 (pp_nsec s)\<rparr>
      in if n \<noteq> 11 then log [Refclock_report CEVNT_BADREPLY] s1
         else
           (let synchar = chr_arg vs 0 (CHR 0x00);
                leapchar = chr_arg vs 9 (CHR 0x00);
                s2 = s1\<lparr>pp_nsec := pp_nsec s1 * 1000000\<rparr>;
                s3 = s2\<lparr>pp_leap := (if synchar \<noteq> CHR '' '' then LEAP_NOTINSYNC
                                      else if leapchar = CHR ''L'' then LEAP_ADDSECOND
                                      else LEAP_NOWARNING)\<rparr>;
                s4 = s3\<lparr>pp_refid := REFTYPE, peer_sst_telephone := True,
                        up_msgcnt := up_msgcnt s3 + 1\<rparr>
            in timecode_valid e str s4))"

text \<open>\<open>modem_timecode\<close>: the \<open>switch\<close> on the length of the line.\<close>

definition modem_timecode :: "env \<Rightarrow> string \<Rightarrow> modem \<Rightarrow> modem" where
  "modem_timecode e str s0 =
     (let s = s0\<lparr>pp_nsec := 0\<rparr>
      in if length str = 1 then
           (if hd str = CHR ''*'' \<and> 0 < up_msgcnt s then timecode_valid e str s else s)
         else if length str = LENACTS then timecode_acts e str s
         else if length str = LENUSNO then timecode_usno e str s
         else if length str = LENPTB then timecode_ptb e str s
         else if length str = LENTYPE0 then timecode_type0 e str s
         else if length str = LENTYPE2 then timecode_type2 e str s
         else s)"

subsection \<open>The close sequence and the timeout handler\<close>

definition modem_close :: "env \<Rightarrow> modem \<Rightarrow> modem" where
  "modem_close e s0 =
     (let s1 = (if pp_fd s0 \<noteq> - 1
                then (log (Ioctl_TIOCMBIC (pp_fd s0) #
                           (if ioctl_ok e then []
                            else [Msyslog ''REFCLOCK: modem: ioctl(TIOCMBIC) failed''])
                           @ [Io_closeclock (pp_fd s0)]) s0)\<lparr>pp_fd := - 1\<rparr>
                else s0);
          s2 = (if pp_flag2 s1 then log [Unlink_lockfile] s1 else s1)
      in if up_msgcnt s2 = 0 \<and> 0 < up_retry s2
         then (if phone e (up_retry s2) \<noteq> None
               then s2\<lparr>up_state := S_IDLE, up_timer := REDIAL\<rparr>
               else s2\<lparr>up_state := S_IDLE, up_timer := 0\<rparr>)
         else s2\<lparr>up_state := S_IDLE, up_timer := 0\<rparr>)"

text \<open>\<open>case S_IDLE\<close> of \<open>modem_timeout\<close>: lock the port, open the device, send the setup.\<close>

definition timeout_idle :: "env \<Rightarrow> modem \<Rightarrow> modem" where
  "timeout_idle e s =
     (if - 1 \<noteq> pp_fd s then s
      else if pp_flag2 s \<and> \<not> lock_open_ok e
      then log [Open_lockfile, Report_event ''modem: port busy''] s
      else
        (let s1 = (if pp_flag2 s
                   then log (Open_lockfile # Write_lockfile #
                             (if write_ok e then []
                              else [Msyslog ''REFCLOCK: modem: write lock fails''])
                             @ [Close_lockfile]) s
                   else s);
             s2 = log [Refclock_open] s1;
             fd = refclock_open e
         in if fd < 0 then log [Msyslog ''REFCLOCK: modem: open fails''] s2
            else
              (let s3 = log [Io_addclock fd] (s2\<lparr>pp_fd := fd\<rparr>)
               in if \<not> io_addclock e
                  then (log [Msyslog ''REFCLOCK: modem: addclock fails'', Close_fd fd] s3)
                         \<lparr>pp_fd := - 1\<rparr>
                  else
                    (let s4 = s3\<lparr>up_msgcnt := 0, up_buf := []\<rparr>
                     in if phone e (up_retry s4) = None
                        then (write_fd e ''T'' ''REFCLOCK: modem: write T fails'' s4)
                               \<lparr>up_state := S_MSG, up_timer := TIMECODE\<rparr>
                        else
                          (let s5 = log [Event_setup (modem_setup e)] s4;
                               s6 = write_fd e (modem_setup e)
                                      ''REFCLOCK: modem: write SETUP fails'' s5;
                               s7 = log [Write_fd (pp_fd s6) [CHR 0x0D]] s6
                           in s7\<lparr>up_state := S_SETUP, up_timer := SETUP\<rparr>)))))"

definition modem_timeout :: "env \<Rightarrow> teModemState \<Rightarrow> modem \<Rightarrow> modem" where
  "modem_timeout e dstate s =
     (case dstate of
        S_IDLE \<Rightarrow> timeout_idle e s
      | S_SETUP \<Rightarrow> modem_close e (log [Report_event ''no modem''] s)
      | S_CONNECT \<Rightarrow> modem_close e (log [Report_event ''no answer''] s)
      | S_MSG \<Rightarrow>
          modem_close e
            (if up_msgcnt s = 0 then log [Report_event ''no timecodes''] s
             else log [Record_clock_stats (pp_a_lastcode s), Refclock_receive]
                    (s\<lparr>pp_lastref := pp_lastrec s\<rparr>)))"

subsection \<open>The message handler\<close>

text \<open>
  The first token of the line: the copy in \<open>tbuf\<close> has every white-space character
  replaced by a null character, and \<open>strcmp\<close> reads it up to the first one.
\<close>

definition first_token :: "env \<Rightarrow> string \<Rightarrow> string" where
  "first_token e msg = takeWhile (\<lambda>c. \<not> isspace_c c) (strlcpy msg (BMAX e))"

text \<open>
  In state \<open>S_SETUP\<close> the entry \<open>sys_phone[retry]\<close> is written out without a test; the
  state is entered only when that entry is not null.  For a null entry, where the C
  code passes a null pointer to \<open>strlen\<close>, the model writes the empty string.
\<close>

definition modem_message :: "env \<Rightarrow> string \<Rightarrow> modem \<Rightarrow> modem" where
  "modem_message e msg s0 =
     (let s = log [Dprint msg] s0;
          tbuf = first_token e msg;
          other = modem_close e (log [Report_event msg] s)
      in case up_state s of
           S_SETUP \<Rightarrow>
             (if tbuf \<noteq> ''OK'' then (if tbuf = modem_setup e then s else other)
              else
                (let s1 = log [Event_dial (up_retry s) (phone e (up_retry s))] s;
                     s2 = log (Ioctl_TIOCMBIS (pp_fd s1) #
                               (if ioctl_ok e then []
                                else [Msyslog ''REFCLOCK: modem: ioctl(TIOCMBIS) failed''])) s1;
                     s3 = write_fd e (case phone e (up_retry s2) of Some p \<Rightarrow> p | None \<Rightarrow> [])
                            ''REFCLOCK: modem: write DIAL fails'' s2;
                     s4 = log [Write_fd (pp_fd s3) [CHR 0x0D]] s3
                 in s4\<lparr>up_retry := up_retry s4 + 1, up_state := S_CONNECT,
                        up_timer := ANSWER\<rparr>))
         | S_CONNECT \<Rightarrow>
             (if tbuf \<noteq> ''CONNECT'' then other
              else (log [Report_event msg] s)\<lparr>up_state := S_MSG, up_timer := TIMECODE\<rparr>)
         | S_MSG \<Rightarrow>
             (let s1 = (if tbuf = ''NO'' then log [Report_event msg] s else s)
              in if up_msgcnt s1 < MAXCODE then modem_timecode e msg s1
                 else modem_timeout e S_MSG s1)
         | S_IDLE \<Rightarrow> other)"

subsection \<open>Poll and timer\<close>

definition modem_poll :: "env \<Rightarrow> modem \<Rightarrow> modem" where
  "modem_poll e s =
     (if peer_ttl s = MODE_MANUAL then s
      else if peer_ttl s = MODE_BACKUP \<and> \<not> sys_peer_free e then s
      else
        (let s1 = s\<lparr>pp_polls := pp_polls s + 1\<rparr>
         in if S_IDLE = up_state s1
            then modem_timeout e S_IDLE (s1\<lparr>up_retry := 0\<rparr>)
            else s1))"

definition modem_timer :: "env \<Rightarrow> modem \<Rightarrow> modem" where
  "modem_timer e s =
     (if up_timer s = 0 then
        (if pp_flag1 s then modem_timeout e S_IDLE (s\<lparr>pp_flag1 := False\<rparr>) else s)
      else
        (let s1 = s\<lparr>up_timer := up_timer s - 1\<rparr>
         in if up_timer s1 = 0 then modem_timeout e (up_state s1) s1 else s1))"

subsection \<open>The line framer\<close>

text \<open>
  Modelled from the spec: \<open>refclock_gtraw\<close> is defined in the reference clock support
  code, which is not among the sources.  By the specification the framer is fed the
  raw bytes of a chunk with the arrival time of the chunk, and a line never grows
  beyond the buffer: the routine copies the chunk, cut to the room left in the line
  buffer less one character for the terminating null, and stores the arrival time in
  its last argument, here \<open>pp->lastrec\<close>.
\<close>

definition refclock_gtraw :: "string \<Rightarrow> l_fp \<Rightarrow> nat \<Rightarrow> modem \<Rightarrow> string \<times> modem" where
  "refclock_gtraw chunk recv_time bmax s = (take (bmax - 1) chunk, s\<lparr>pp_lastrec := recv_time\<rparr>)"

text \<open>The body of the loop of \<open>modem_receive\<close>, for the character \<open>*tptr\<close>.\<close>

definition receive_char :: "env \<Rightarrow> char \<Rightarrow> modem \<Rightarrow> modem" where
  "receive_char e c s =
     (if c = LF then
        (if up_buf s = [] then s\<lparr>up_tstamp := pp_lastrec s\<rparr>
         else modem_message e (up_buf s) (s\<lparr>up_buf := []\<rparr>))
      else if \<not> iscntrl_c c then
        (let s1 = s\<lparr>up_buf := up_buf s @ [c]\<rparr>
         in if c = CHR ''*'' \<or> c = CHR ''#''
            then write_fd e [c] ''REFCLOCK: modem: write echo fails''
                   (s1\<lparr>up_tstamp := pp_lastrec s1\<rparr>)
            else s1)
      else s)"

fun receive_loop :: "env \<Rightarrow> string \<Rightarrow> modem \<Rightarrow> modem" where
  "receive_loop e [] s = s"
| "receive_loop e (c # cs) s = receive_loop e cs (receive_char e c s)"

text \<open>
  \<open>modem_receive\<close>: the chunk is copied to \<open>tbuf\<close> and scanned up to its first null
  character.
\<close>

definition modem_receive :: "env \<Rightarrow> string \<Rightarrow> l_fp \<Rightarrow> modem \<Rightarrow> modem" where
  "modem_receive e chunk recv_time s0 =
     (let octets = BMAX e - length (up_buf s0);
          (tbuf, s) = refclock_gtraw chunk recv_time octets s0
      in receive_loop e (takeWhile (\<lambda>c. c \<noteq> CHR 0x00) tbuf) s)"

subsection \<open>Observations on a run\<close>

text \<open>
  The samples handed to \<open>refclock_process\<close> and the lines handed to \<open>modem_message\<close>, read
  off the trace.
\<close>

fun forwarded_of :: "effect list \<Rightarrow> sample list" where
  "forwarded_of [] = []"
| "forwarded_of (Refclock_process smp # es) = smp # forwarded_of es"
| "forwarded_of (_ # es) = forwarded_of es"

definition forwarded :: "modem \<Rightarrow> sample list" where
  "forwarded s = forwarded_of (trace s)"

fun lines_of :: "effect list \<Rightarrow> string list" where
  "lines_of [] = []"
| "lines_of (Dprint msg # es) = msg # lines_of es"
| "lines_of (_ # es) = lines_of es"

definition emitted :: "modem \<Rightarrow> string list" where
  "emitted s = lines_of (trace s)"

text \<open>
  A line is a valid timecode of a format when it has the length of the format and
  \<open>sscanf\<close> with the format of the parser converts all fields.  The fields the theorems
  speak about are read from the same scan.
\<close>

definition scan_acts :: "string \<Rightarrow> int \<times> scanval list" where
  "scan_acts str = sscanf str ''%5lu %2d-%2d-%2d %2d:%2d:%2d %2u %1u %3lf %5lf %9s %c''"

definition valid_acts :: "string \<Rightarrow> bool" where
  "valid_acts str = (length str = 50 \<and> fst (scan_acts str) = 13)"

definition acts_leap :: "string \<Rightarrow> int" where
  "acts_leap str = int_arg (snd (scan_acts str)) 8 0"

definition acts_flag :: "string \<Rightarrow> char" where
  "acts_flag str = chr_arg (snd (scan_acts str)) 12 (CHR 0x00)"


definition scan_ptb :: "string \<Rightarrow> int \<times> scanval list" where
  "scan_ptb str = sscanf str
     ''%*4d-%*2d-%*2d %*2d:%*2d:%2d %*5c%*12c%4d%2d%2d%2d%2d%5lu%2lf%c%2d%3lf%*15c%c''"

definition valid_ptb :: "string \<Rightarrow> bool" where
  "valid_ptb str = (length str = 78 \<and> fst (scan_ptb str) = 12)"

definition ptb_month :: "string \<Rightarrow> int" where
  "ptb_month str = int_arg (snd (scan_ptb str)) 2 0"

definition ptb_leapdir :: "string \<Rightarrow> char" where
  "ptb_leapdir str = chr_arg (snd (scan_ptb str)) 8 (CHR 0x00)"

definition ptb_leapmonth :: "string \<Rightarrow> int" where
  "ptb_leapmonth str = int_arg (snd (scan_ptb str)) 9 0"

text \<open>The parser run over a sequence of lines, first line first.\<close>

definition timecodes :: "env \<Rightarrow> string list \<Rightarrow> modem \<Rightarrow> modem" where
  "timecodes e ls s = fold (modem_timecode e) ls s"

subsection \<open>A concrete installation\<close>

text \<open>
  The theorems below hold for every environment and every state.  Where one is
  instantiated, it is on this installation: line buffers of 128 characters, two phone
  numbers, the default setup string, a Gregorian day-of-year conversion, a clock
  filter that accepts every sample, and system calls that succeed; the unit is as
  \<open>modem_start\<close> leaves it, in automatic mode.
\<close>

definition greg_ymd2yd :: "int \<Rightarrow> int \<Rightarrow> int \<Rightarrow> int" where
  "greg_ymd2yd y m d =
     (if 1 \<le> m \<and> m \<le> 12
      then [0, 31, 59, 90, 120, 151, 181, 212, 243, 273, 304, 334] ! nat (m - 1) + d
           + (if 2 < m \<and> (y mod 4 = 0 \<and> y mod 100 \<noteq> 0 \<or> y mod 400 = 0) then 1 else 0)
      else d)"

definition site :: env where
  "site = \<lparr>BMAX = 128, sys_phone = [''ATDT13034944774'', ''ATDT18083354721''],
     modem_setup = ''ATB1&C0&D2E0L1M1Q0V1Y1'', ymd2yd = greg_ymd2yd,
     refclock_process = (\<lambda>smp. True), lock_open_ok = True, refclock_open = 5,
     io_addclock = True, write_ok = True, ioctl_ok = True, sys_peer_free = True\<rparr>"

definition unit0 :: modem where
  "unit0 = \<lparr>up_state = S_IDLE, up_timer = 0, up_retry = 0, up_msgcnt = 0, up_tstamp = 0,
     up_buf = [], pp_fd = - 1, pp_flag1 = False, pp_flag2 = False, pp_year = 0, pp_day = 0,
     pp_hour = 0, pp_minute = 0, pp_second = 0, pp_nsec = 0, pp_leap = LEAP_NOWARNING,
     pp_refid = ''NONE'', pp_lastrec = 0, pp_lastref = 0, pp_a_lastcode = [],
     pp_lencode = 0, pp_polls = 0, peer_refid = [], peer_sst_telephone = True,
     peer_ttl = 1, trace = []\<rparr>"

text \<open>The unit in a call, waiting for timecodes, 42 seconds before the timeout.\<close>

definition in_call :: modem where
  "in_call = unit0\<lparr>up_state := S_MSG, up_timer := 42, up_retry := 1, pp_fd := 5,
                     up_tstamp := 111\<rparr>"

definition acts_line :: string where
  "acts_line = ''47999 90-04-18 21:39:15 50 0 +.1 045.0 UTC(NIST) *''"

definition acts_line_leap :: string where
  "acts_line_leap = ''47999 90-04-18 21:39:15 50 1 +.1 045.0 UTC(NIST) #''"

definition usno_line :: string where
  "usno_line = ''12345 123 123456 UTC''"


definition ptb_line :: string where
  "ptb_line = ''1995-01-23 20:58:51 MEZ  10402303260219950123195849740+4+01050               *''"


section \<open>Properties\<close>

subsection \<open>What the routines leave alone\<close>

lemma log_fields [simp]:
  "up_state (log es s) = up_state s" "up_timer (log es s) = up_timer s"
  "up_retry (log es s) = up_retry s" "up_msgcnt (log es s) = up_msgcnt s"
  "up_tstamp (log es s) = up_tstamp s" "up_buf (log es s) = up_buf s"
  "pp_fd (log es s) = pp_fd s" "pp_flag1 (log es s) = pp_flag1 s"
  "pp_flag2 (log es s) = pp_flag2 s" "pp_leap (log es s) = pp_leap s"
  "pp_lastrec (log es s) = pp_lastrec s" "sample_of (log es s) = sample_of s"
  "trace (log es s) = trace s @ es"
  by (simp_all add: log_def sample_of_def)

lemma write_fd_fields [simp]:
  "up_state (write_fd e d m s) = up_state s" "up_timer (write_fd e d m s) = up_timer s"
  "up_retry (write_fd e d m s) = up_retry s" "up_msgcnt (write_fd e d m s) = up_msgcnt s"
  "up_tstamp (write_fd e d m s) = up_tstamp s" "up_buf (write_fd e d m s) = up_buf s"
  "pp_fd (write_fd e d m s) = pp_fd s" "pp_lastrec (write_fd e d m s) = pp_lastrec s"
  by (simp_all add: write_fd_def)

lemma forwarded_of_append: "forwarded_of (xs @ ys) = forwarded_of xs @ forwarded_of ys"
  by (induction xs rule: forwarded_of.induct) simp_all

lemma lines_of_append: "lines_of (xs @ ys) = lines_of xs @ lines_of ys"
  by (induction xs rule: lines_of.induct) simp_all

lemma write_fd_lines [simp]: "lines_of (trace (write_fd e d m s)) = lines_of (trace s)"
  by (simp add: write_fd_def lines_of_append)

text \<open>
  The parser changes neither the state of the automaton nor its timer, the on-time
  timestamp, the line buffer or the device; it hands no line to the message handler.
\<close>

lemma timecode_valid_fields:
  "up_state (timecode_valid e str s) = up_state s"
  "up_timer (timecode_valid e str s) = up_timer s"
  "up_retry (timecode_valid e str s) = up_retry s"
  "up_msgcnt (timecode_valid e str s) = up_msgcnt s"
  "up_tstamp (timecode_valid e str s) = up_tstamp s"
  "up_buf (timecode_valid e str s) = up_buf s"
  "pp_fd (timecode_valid e str s) = pp_fd s"
  "pp_leap (timecode_valid e str s) = pp_leap s"
  by (simp_all add: timecode_valid_def Let_def)

lemma timecode_valid_forwarded:
  "forwarded_of (trace (timecode_valid e str s)) =
     forwarded_of (trace s) @
       (if up_msgcnt s = 0 then [] else [sample_of (timecode_valid e str s)])"
  by (simp add: timecode_valid_def Let_def forwarded_of_append sample_of_def log_def)

lemma timecode_valid_lastcode:
  "up_msgcnt s \<noteq> 0 \<Longrightarrow>
   smp_lastcode (sample_of (timecode_valid e str s)) = strlcpy str (BMAX e)"
  by (simp add: timecode_valid_def Let_def sample_of_def log_def)

lemma timecode_valid_emitted: "lines_of (trace (timecode_valid e str s)) = lines_of (trace s)"
  by (simp add: timecode_valid_def Let_def lines_of_append)

lemma timecode_acts_frame:
  "up_state (timecode_acts e str s) = up_state s"
  "up_timer (timecode_acts e str s) = up_timer s"
  "up_tstamp (timecode_acts e str s) = up_tstamp s"
  "up_buf (timecode_acts e str s) = up_buf s"
  "pp_fd (timecode_acts e str s) = pp_fd s"
  "lines_of (trace (timecode_acts e str s)) = lines_of (trace s)"
  by (simp_all add: timecode_acts_def Let_def timecode_valid_fields timecode_valid_emitted
        lines_of_append split: prod.splits)

lemma timecode_usno_frame:
  "up_state (timecode_usno e str s) = up_state s"
  "up_timer (timecode_usno e str s) = up_timer s"
  "up_tstamp (timecode_usno e str s) = up_tstamp s"
  "up_buf (timecode_usno e str s) = up_buf s"
  "pp_fd (timecode_usno e str s) = pp_fd s"
  "lines_of (trace (timecode_usno e str s)) = lines_of (trace s)"
  by (simp_all add: timecode_usno_def Let_def timecode_valid_fields timecode_valid_emitted
        lines_of_append split: prod.splits)

lemma timecode_ptb_frame:
  "up_state (timecode_ptb e str s) = up_state s"
  "up_timer (timecode_ptb e str s) = up_timer s"
  "up_tstamp (timecode_ptb e str s) = up_tstamp s"
  "up_buf (timecode_ptb e str s) = up_buf s"
  "pp_fd (timecode_ptb e str s) = pp_fd s"
  "lines_of (trace (timecode_ptb e str s)) = lines_of (trace s)"
  by (simp_all add: timecode_ptb_def Let_def timecode_valid_fields timecode_valid_emitted
        lines_of_append split: prod.splits)

lemma timecode_type0_frame:
  "up_state (timecode_type0 e str s) = up_state s"
  "up_timer (timecode_type0 e str s) = up_timer s"
  "up_tstamp (timecode_type0 e str s) = up_tstamp s"
  "up_buf (timecode_type0 e str s) = up_buf s"
  "pp_fd (timecode_type0 e str s) = pp_fd s"
  "lines_of (trace (timecode_type0 e str s)) = lines_of (trace s)"
  by (simp_all add: timecode_type0_def Let_def timecode_valid_fields timecode_valid_emitted
        lines_of_append split: prod.splits)

lemma timecode_type2_frame:
  "up_state (timecode_type2 e str s) = up_state s"
  "up_timer (timecode_type2 e str s) = up_timer s"
  "up_tstamp (timecode_type2 e str s) = up_tstamp s"
  "up_buf (timecode_type2 e str s) = up_buf s"
  "pp_fd (timecode_type2 e str s) = pp_fd s"
  "lines_of (trace (timecode_type2 e str s)) = lines_of (trace s)"
  by (simp_all add: timecode_type2_def Let_def timecode_valid_fields timecode_valid_emitted
        lines_of_append split: prod.splits)

lemma modem_timecode_frame:
  "up_state (modem_timecode e str s) = up_state s"
  "up_timer (modem_timecode e str s) = up_timer s"
  "up_tstamp (modem_timecode e str s) = up_tstamp s"
  "up_buf (modem_timecode e str s) = up_buf s"
  "pp_fd (modem_timecode e str s) = pp_fd s"
  "lines_of (trace (modem_timecode e str s)) = lines_of (trace s)"
  by (simp_all add: modem_timecode_def Let_def timecode_valid_fields timecode_valid_emitted
        timecode_acts_frame timecode_usno_frame timecode_ptb_frame timecode_type0_frame
        timecode_type2_frame)

text \<open>
  No routine below the framer writes the on-time timestamp, and an empty line buffer
  stays empty; \<open>modem_message\<close> shows its line once.
\<close>

lemma modem_close_frame:
  "up_tstamp (modem_close e s) = up_tstamp s"
  "up_buf (modem_close e s) = up_buf s"
  "lines_of (trace (modem_close e s)) = lines_of (trace s)"
  by (simp_all add: modem_close_def Let_def lines_of_append)

lemma timeout_idle_frame:
  "up_tstamp (timeout_idle e s) = up_tstamp s"
  "up_buf s = [] \<Longrightarrow> up_buf (timeout_idle e s) = []"
  "lines_of (trace (timeout_idle e s)) = lines_of (trace s)"
  by (simp_all add: timeout_idle_def Let_def lines_of_append write_fd_def log_def)

lemma modem_timeout_frame:
  "up_tstamp (modem_timeout e d s) = up_tstamp s"
  "up_buf s = [] \<Longrightarrow> up_buf (modem_timeout e d s) = []"
  "lines_of (trace (modem_timeout e d s)) = lines_of (trace s)"
  by (simp_all add: modem_timeout_def modem_close_frame timeout_idle_frame
        lines_of_append split: teModemState.splits)

lemma modem_message_frame:
  "up_tstamp (modem_message e msg s) = up_tstamp s"
  "up_buf s = [] \<Longrightarrow> up_buf (modem_message e msg s) = []"
  "lines_of (trace (modem_message e msg s)) = lines_of (trace s) @ [msg]"
  by (simp_all add: modem_message_def Let_def modem_close_frame modem_timeout_frame
        modem_timecode_frame lines_of_append split: teModemState.splits)

subsection \<open>The scan on unusual lines\<close>

text \<open>
  Three lines of the format-A length on which the reading of \<open>%lf\<close> decides: \<open>nan()\<close> is
  converted as \<open>nan\<close>, so that \<open>%9s\<close> takes \<open>()\<close> and the flag is the \<open>#\<close> behind it; an exponent
  letter without digits is consumed with the number.
\<close>

lemma scan_acts_examples:
  "fst (scan_acts ''47999 90-04-18 21:39:15 50 1 +.1 nan() #TC(NIST) *'') = 13"
  "acts_flag ''47999 90-04-18 21:39:15 50 1 +.1 nan() #TC(NIST) *'' = CHR ''#''"
  "fst (scan_acts ''47999 90-04-18 21:39:15 50 1 +.1 045.E UTC(NIST) *'') = 13"
  "fst (scan_acts ''47999 90-04-18 21:39:15 50 1 05e 045.0 UTC(NIST) *'') = 13"
  by code_simp+

subsection \<open>Format A: lines below the tenth\<close>

lemma acts_quiet:
  assumes "valid_acts l" "acts_flag l \<noteq> CHR ''#''" "up_msgcnt s + 1 < 10"
  shows "trace (modem_timecode e l s) = trace s \<and>
         up_msgcnt (modem_timecode e l s) = up_msgcnt s + 1"
  using assms
  by (simp add: modem_timecode_def timecode_acts_def valid_acts_def acts_flag_def
        scan_acts_def LENACTS_def Let_def case_prod_beta)

lemma acts_quiet_run:
  "\<forall>l\<in>set ls. valid_acts l \<and> acts_flag l \<noteq> CHR ''#'' \<Longrightarrow>
   up_msgcnt s + int (length ls) < 10 \<Longrightarrow>
   trace (timecodes e ls s) = trace s \<and>
   up_msgcnt (timecodes e ls s) = up_msgcnt s + int (length ls)"
proof (induction ls arbitrary: s)
  case Nil
  then show ?case by (simp add: timecodes_def)
next
  case (Cons l ls)
  have step: "trace (modem_timecode e l s) = trace s \<and>
              up_msgcnt (modem_timecode e l s) = up_msgcnt s + 1"
    using Cons.prems by (intro acts_quiet) auto
  have "trace (timecodes e ls (modem_timecode e l s)) = trace (modem_timecode e l s) \<and>
        up_msgcnt (timecodes e ls (modem_timecode e l s)) =
          up_msgcnt (modem_timecode e l s) + int (length ls)"
    using Cons.prems step by (intro Cons.IH) auto
  with step show ?case by (simp add: timecodes_def)
qed

lemma acts_tenth:
  assumes "valid_acts l" "up_msgcnt s = 9"
  shows "forwarded (modem_timecode e l s) = forwarded s @ [sample_of (modem_timecode e l s)] \<and>
         up_msgcnt (modem_timecode e l s) = 10 \<and>
         smp_lastcode (sample_of (modem_timecode e l s)) = strlcpy l (BMAX e)"
  using assms
  by (simp add: modem_timecode_def timecode_acts_def valid_acts_def scan_acts_def LENACTS_def
        Let_def timecode_valid_forwarded timecode_valid_fields timecode_valid_lastcode
        forwarded_def case_prod_beta)

subsection \<open>The framer at a terminator\<close>

lemma receive_loop_append:
  "receive_loop e (xs @ ys) s = receive_loop e ys (receive_loop e xs s)"
  by (induction xs arbitrary: s) simp_all

lemma receive_loop_blank:
  "up_buf s = [] \<Longrightarrow> \<forall>c\<in>set pre. iscntrl_c c \<Longrightarrow>
   receive_char e LF (receive_loop e pre s) = s\<lparr>up_tstamp := pp_lastrec s\<rparr>"
proof (induction pre arbitrary: s)
  case Nil
  then show ?case by (simp add: receive_char_def)
next
  case (Cons c pre)
  show ?case
  proof (cases "c = LF")
    case True
    then have step: "receive_char e c s = s\<lparr>up_tstamp := pp_lastrec s\<rparr>"
      using Cons.prems(1) by (simp add: receive_char_def)
    have "receive_char e LF (receive_loop e pre (s\<lparr>up_tstamp := pp_lastrec s\<rparr>)) =
            s\<lparr>up_tstamp := pp_lastrec s\<rparr>\<lparr>up_tstamp := pp_lastrec (s\<lparr>up_tstamp := pp_lastrec s\<rparr>)\<rparr>"
      using Cons.prems by (intro Cons.IH) simp_all
    with step show ?thesis by simp
  next
    case False
    then have step: "receive_char e c s = s"
      using Cons.prems(2) by (simp add: receive_char_def)
    have "receive_char e LF (receive_loop e pre s) = s\<lparr>up_tstamp := pp_lastrec s\<rparr>"
      using Cons.prems by (intro Cons.IH) simp_all
    with step show ?thesis by simp
  qed
qed

lemma receive_first_terminator:
  assumes "up_buf s = []" and "\<forall>c\<in>set pre. iscntrl_c c \<and> c \<noteq> CHR 0x00"
    and "length pre + 2 \<le> BMAX e"
  shows "modem_receive e (pre @ LF # rest) t s =
           receive_loop e (takeWhile (\<lambda>c. c \<noteq> CHR 0x00) (take (BMAX e - length pre - 2) rest))
             (s\<lparr>pp_lastrec := t, up_tstamp := t\<rparr>)"
proof -
  have cut: "take (BMAX e - 1) (pre @ LF # rest) = pre @ LF # take (BMAX e - length pre - 2) rest"
    using assms(3) by (simp add: take_Cons' )
  have nonul: "takeWhile (\<lambda>c. c \<noteq> CHR 0x00) (pre @ LF # r) =
                 pre @ LF # takeWhile (\<lambda>c. c \<noteq> CHR 0x00) r" for r
    using assms(2) by (simp add: LF_def takeWhile_append2)
  have blank: "receive_char e LF (receive_loop e pre (s\<lparr>pp_lastrec := t\<rparr>)) =
                 s\<lparr>pp_lastrec := t\<rparr>\<lparr>up_tstamp := pp_lastrec (s\<lparr>pp_lastrec := t\<rparr>)\<rparr>"
    using assms(1,2) by (intro receive_loop_blank) simp_all
  have "modem_receive e (pre @ LF # rest) t s =
          receive_loop e (takeWhile (\<lambda>c. c \<noteq> CHR 0x00) (take (BMAX e - 1) (pre @ LF # rest)))
            (s\<lparr>pp_lastrec := t\<rparr>)"
    using assms(1) by (simp add: modem_receive_def refclock_gtraw_def Let_def)
  also have "\<dots> = receive_loop e (takeWhile (\<lambda>c. c \<noteq> CHR 0x00)
                       (take (BMAX e - length pre - 2) rest))
                     (receive_char e LF (receive_loop e pre (s\<lparr>pp_lastrec := t\<rparr>)))"
    unfolding cut nonul by (simp add: receive_loop_append)
  also have "\<dots> = receive_loop e (takeWhile (\<lambda>c. c \<noteq> CHR 0x00)
                       (take (BMAX e - length pre - 2) rest))
                     (s\<lparr>pp_lastrec := t, up_tstamp := t\<rparr>)"
    unfolding blank by simp
  finally show ?thesis .
qed

text \<open>
  What one terminator does: on the empty buffer it copies \<open>pp->lastrec\<close> and hands
  nothing over, and that value is the arrival time when nothing but control characters
  came before it in the chunk; on a buffer with content it hands over exactly that
  content, with the cursor reset and the on-time timestamp kept.
\<close>

lemma receive_terminator:
  "(up_buf s = [] \<longrightarrow>
      receive_char e LF s = s\<lparr>up_tstamp := pp_lastrec s\<rparr>
      \<and> emitted (receive_char e LF s) = emitted s)
   \<and> (up_buf s = [] \<and> (\<forall>c\<in>set pre. iscntrl_c c \<and> c \<noteq> CHR 0x00)
        \<and> length pre + 2 \<le> BMAX e \<longrightarrow>
      modem_receive e (pre @ LF # rest) t s =
        receive_loop e (takeWhile (\<lambda>c. c \<noteq> CHR 0x00) (take (BMAX e - length pre - 2) rest))
          (s\<lparr>pp_lastrec := t, up_tstamp := t\<rparr>))
   \<and> (up_buf s \<noteq> [] \<longrightarrow>
      receive_char e LF s = modem_message e (up_buf s) (s\<lparr>up_buf := []\<rparr>)
      \<and> emitted (receive_char e LF s) = emitted s @ [up_buf s]
      \<and> up_buf (receive_char e LF s) = []
      \<and> up_tstamp (receive_char e LF s) = up_tstamp s)"
proof (intro conjI impI)
  assume "up_buf s = []"
  then show "receive_char e LF s = s\<lparr>up_tstamp := pp_lastrec s\<rparr>"
    by (simp add: receive_char_def)
  then show "emitted (receive_char e LF s) = emitted s"
    by (simp add: emitted_def)
next
  assume "up_buf s = [] \<and> (\<forall>c\<in>set pre. iscntrl_c c \<and> c \<noteq> CHR 0x00)
          \<and> length pre + 2 \<le> BMAX e"
  then show "modem_receive e (pre @ LF # rest) t s =
        receive_loop e (takeWhile (\<lambda>c. c \<noteq> CHR 0x00) (take (BMAX e - length pre - 2) rest))
          (s\<lparr>pp_lastrec := t, up_tstamp := t\<rparr>)"
    by (intro receive_first_terminator) simp_all
next
  assume full: "up_buf s \<noteq> []"
  then show eq: "receive_char e LF s = modem_message e (up_buf s) (s\<lparr>up_buf := []\<rparr>)"
    by (simp add: receive_char_def)
  show "emitted (receive_char e LF s) = emitted s @ [up_buf s]"
    by (simp add: eq emitted_def modem_message_frame)
  show "up_buf (receive_char e LF s) = []"
    by (simp add: eq modem_message_frame)
  show "up_tstamp (receive_char e LF s) = up_tstamp s"
    by (simp add: eq modem_message_frame)
qed

section \<open>The claims\<close>

text \<open>
  Claim C1: a successfully parsed length-20 (USNO) line is not forwarded to the clock
  filter by itself; a valid length-20 line followed by a lone \<open>*\<close> line forwards exactly
  one sample, with the fields of the length-20 line.

  The comment in \<open>case LENUSNO\<close> says to wait for the on-time character, but the case
  ends in \<open>break\<close> and runs into the statements that hand the sample over.  On the unit
  in a call with no message yet, the line \<open>12345 123 123456 UTC\<close> alone is forwarded, and
  the \<open>*\<close> line after it forwards a second sample with the same fields.
\<close>

theorem usno_line_forwarded_twice:
  "forwarded (modem_timecode site usno_line in_call) =
     [\<lparr>smp_year = 0, smp_day = 123, smp_hour = 12, smp_minute = 34, smp_second = 56,
       smp_nsec = 0, smp_leap = LEAP_NOWARNING, smp_refid = ''USNO'', smp_lastrec = 111,
       smp_lastcode = ''12345 123 123456 UTC''\<rparr>]
   \<and> forwarded (timecodes site [usno_line, ''*''] in_call) =
     [\<lparr>smp_year = 0, smp_day = 123, smp_hour = 12, smp_minute = 34, smp_second = 56,
       smp_nsec = 0, smp_leap = LEAP_NOWARNING, smp_refid = ''USNO'', smp_lastrec = 111,
       smp_lastcode = ''12345 123 123456 UTC''\<rparr>,
      \<lparr>smp_year = 0, smp_day = 123, smp_hour = 12, smp_minute = 34, smp_second = 56,
       smp_nsec = 0, smp_leap = LEAP_NOWARNING, smp_refid = ''USNO'', smp_lastrec = 111,
       smp_lastcode = ''*''\<rparr>]"
  by code_simp

text \<open>
  Claim C2: a line with first token \<open>NO\<close> in state \<open>S_MSG\<close> is reported and the call is
  aborted by the close sequence.

  The comment before \<open>case S_MSG\<close> says that NO CARRIER aborts the call, but after the
  report the line goes to the parser like any other line when fewer than \<open>MAXCODE\<close>
  messages were counted.  \<open>NO CARRIER\<close> has ten characters, which is no timecode length:
  the unit stays in \<open>S_MSG\<close> with the device open and the timer running.
\<close>

theorem no_carrier_not_aborted:
  "up_state (modem_message site ''NO CARRIER'' in_call) = S_MSG
   \<and> up_timer (modem_message site ''NO CARRIER'' in_call) = 42
   \<and> pp_fd (modem_message site ''NO CARRIER'' in_call) = 5
   \<and> trace (modem_message site ''NO CARRIER'' in_call) =
       [Dprint ''NO CARRIER'', Report_event ''NO CARRIER'']"
  by code_simp

text \<open>
  Claim C3: after the transition out of the idle state, by a poll or by the forced-call
  flag with the timer at 0, the message count and the retry index are both 0.

  \<open>modem_poll\<close> resets the retry index before it calls the timeout handler; the
  forced-call branch of \<open>modem_timer\<close> does not.  With the index left at 1 by an earlier
  call, a forced call leaves the idle state with message count 0 and retry index 1,
  where a poll from the same state gives retry index 0.
\<close>

theorem forced_call_keeps_retry:
  "up_state (modem_timer site (unit0\<lparr>pp_flag1 := True, up_retry := 1, up_msgcnt := 3\<rparr>)) = S_SETUP
   \<and> up_msgcnt (modem_timer site (unit0\<lparr>pp_flag1 := True, up_retry := 1, up_msgcnt := 3\<rparr>)) = 0
   \<and> up_retry (modem_timer site (unit0\<lparr>pp_flag1 := True, up_retry := 1, up_msgcnt := 3\<rparr>)) = 1
   \<and> up_retry (modem_poll site (unit0\<lparr>pp_flag1 := True, up_retry := 1, up_msgcnt := 3\<rparr>)) = 0"
  by code_simp

text \<open>
  Claim C4: for every state at entry, the close sequence sets the state to idle, with a
  timer of 30 seconds if and only if the message count is 0, the retry index is above 0
  and the phone list has an entry at the retry index; in every other case the timer
  is 0.
\<close>

theorem close_sequence_redial:
  "up_state (modem_close e s) = S_IDLE
   \<and> up_timer (modem_close e s) =
       (if up_msgcnt s = 0 \<and> 0 < up_retry s \<and> phone e (up_retry s) \<noteq> None then 30 else 0)"
  by (auto simp: modem_close_def Let_def REDIAL_def)

text \<open>
  Claim C5: in a cycle that starts with message count 0, nine valid length-50 lines
  whose on-time flag is not \<open>#\<close> forward no sample, each one only counting as a message;
  the tenth valid length-50 line, whatever its flag, forwards a sample.

  After each of the first nine lines the trace is what it was at the start, so nothing
  was handed to \<open>refclock_process\<close> nor reported, and the message count is the number of
  lines read.  The tenth line adds one sample, whose last code is that line.
\<close>

theorem acts_noise_tolerance:
  assumes "up_msgcnt s = 0" and "length ls = 9"
    and "\<forall>l\<in>set ls. valid_acts l \<and> acts_flag l \<noteq> CHR ''#''"
    and "valid_acts l10"
  shows "(\<forall>k\<le>9. trace (timecodes e (take k ls) s) = trace s \<and>
                 up_msgcnt (timecodes e (take k ls) s) = int k)
         \<and> forwarded (timecodes e (ls @ [l10]) s) =
             forwarded s @ [sample_of (timecodes e (ls @ [l10]) s)]
         \<and> smp_lastcode (sample_of (timecodes e (ls @ [l10]) s)) = strlcpy l10 (BMAX e)"
proof -
  have quiet: "trace (timecodes e (take k ls) s) = trace s \<and>
               up_msgcnt (timecodes e (take k ls) s) = int k" if "k \<le> 9" for k
  proof -
    have "\<forall>l\<in>set (take k ls). valid_acts l \<and> acts_flag l \<noteq> CHR ''#''"
      using assms(3) by (meson in_set_takeD)
    moreover have "up_msgcnt s + int (length (take k ls)) < 10"
      using assms(1,2) that by simp
    ultimately have "trace (timecodes e (take k ls) s) = trace s \<and>
        up_msgcnt (timecodes e (take k ls) s) = up_msgcnt s + int (length (take k ls))"
      by (rule acts_quiet_run)
    then show ?thesis using assms(1,2) that by simp
  qed
  from quiet [of 9] assms(2)
  have nine: "trace (timecodes e ls s) = trace s" "up_msgcnt (timecodes e ls s) = 9"
    by simp_all
  have split: "timecodes e (ls @ [l10]) s = modem_timecode e l10 (timecodes e ls s)"
    by (simp add: timecodes_def)
  from acts_tenth [OF assms(4) nine(2), of e] nine(1) split
  have "forwarded (timecodes e (ls @ [l10]) s) =
          forwarded s @ [sample_of (timecodes e (ls @ [l10]) s)]"
       "smp_lastcode (sample_of (timecodes e (ls @ [l10]) s)) = strlcpy l10 (BMAX e)"
    by (simp_all add: forwarded_def)
  with quiet show ?thesis by blast
qed

theorem acts_noise_tolerance_witness:
  "up_msgcnt in_call = 0 \<and> length (replicate 9 acts_line) = 9
   \<and> valid_acts acts_line \<and> acts_flag acts_line \<noteq> CHR ''#''
   \<and> valid_acts acts_line_leap
   \<and> trace (timecodes site (replicate 9 acts_line) in_call) = trace in_call
   \<and> up_msgcnt (timecodes site (replicate 9 acts_line) in_call) = 9
   \<and> forwarded (timecodes site (replicate 9 acts_line @ [acts_line_leap]) in_call) =
       forwarded in_call @
         [sample_of (timecodes site (replicate 9 acts_line @ [acts_line_leap]) in_call)]
   \<and> smp_lastcode (sample_of (timecodes site (replicate 9 acts_line @ [acts_line_leap]) in_call))
       = strlcpy acts_line_leap (BMAX site)"
proof -
  have h1: "up_msgcnt in_call = 0" by code_simp
  have h2: "length (replicate 9 acts_line) = 9" by simp
  have v: "valid_acts acts_line" "acts_flag acts_line \<noteq> CHR ''#''" by code_simp+
  have h3: "\<forall>l\<in>set (replicate 9 acts_line). valid_acts l \<and> acts_flag l \<noteq> CHR ''#''"
    using v by simp
  have h4: "valid_acts acts_line_leap" by code_simp
  note inst = acts_noise_tolerance [OF h1 h2 h3 h4, of site]
  from inst have "trace (timecodes site (take 9 (replicate 9 acts_line)) in_call) = trace in_call
      \<and> up_msgcnt (timecodes site (take 9 (replicate 9 acts_line)) in_call) = int 9"
    by blast
  then have nine: "trace (timecodes site (replicate 9 acts_line) in_call) = trace in_call"
    "up_msgcnt (timecodes site (replicate 9 acts_line) in_call) = 9"
    by simp_all
  from inst nine h1 h2 v h4 show ?thesis by blast
qed

text \<open>
  Claim C6: for every valid length-50 line, leap flag 1 gives the leap indicator
  add-second, 2 gives delete-second and any other value gives none; for every valid
  length-78 line the leap direction character (\<open>+\<close> add-second, \<open>-\<close> delete-second)
  counts only when the leap month of the line is its month, and the indicator is none
  otherwise.
\<close>

theorem leap_logic:
  "(valid_acts a \<longrightarrow>
      pp_leap (modem_timecode e a s) =
        (if acts_leap a = 1 then LEAP_ADDSECOND
         else if acts_leap a = 2 then LEAP_DELSECOND else LEAP_NOWARNING))
   \<and> (valid_ptb p \<longrightarrow>
      pp_leap (modem_timecode e p s) =
        (if ptb_leapmonth p = ptb_month p
         then (if ptb_leapdir p = CHR ''+'' then LEAP_ADDSECOND
               else if ptb_leapdir p = CHR ''-'' then LEAP_DELSECOND else LEAP_NOWARNING)
         else LEAP_NOWARNING))"
  by (simp add: modem_timecode_def timecode_acts_def timecode_ptb_def valid_acts_def
        valid_ptb_def scan_acts_def scan_ptb_def acts_leap_def ptb_month_def ptb_leapdir_def
        ptb_leapmonth_def LENACTS_def LENUSNO_def LENPTB_def Let_def case_prod_beta
        timecode_valid_fields)

theorem leap_logic_witness:
  "valid_acts acts_line_leap \<and> acts_leap acts_line_leap = 1
   \<and> pp_leap (modem_timecode site acts_line_leap in_call) = LEAP_ADDSECOND
   \<and> valid_ptb ptb_line \<and> ptb_leapmonth ptb_line = ptb_month ptb_line
   \<and> ptb_leapdir ptb_line = CHR ''+''
   \<and> pp_leap (modem_timecode site ptb_line in_call) = LEAP_ADDSECOND"
proof -
  have a: "valid_acts acts_line_leap" "acts_leap acts_line_leap = 1" by code_simp+
  have p: "valid_ptb ptb_line" "ptb_leapmonth ptb_line = ptb_month ptb_line"
    "ptb_leapdir ptb_line = CHR ''+''" by code_simp+
  from leap_logic [of acts_line_leap site in_call ptb_line] a p show ?thesis by simp
qed




text \<open>
  Claim C8: in the line framer, for every chunk, a terminator that arrives while the
  line buffer is empty records the arrival time of the chunk as the on-time timestamp
  and emits no line; a terminator that arrives with content in the buffer emits exactly
  the buffered content as one line, resets the write cursor and leaves the on-time
  timestamp as it was.

  The framer copies \<open>pp->lastrec\<close>, where \<open>refclock_gtraw\<close> has put the arrival time, but the
  parser, called from inside the loop for a complete line, overwrites \<open>pp->lastrec\<close> with
  the on-time timestamp when it accepts the line.  The comment of \<open>modem_receive\<close> says
  that the timestamp is captured at the beginning of the message and at the \<open>*\<close> and \<open>#\<close>
  characters; behind an accepted line of the same chunk the value captured is the old
  on-time timestamp.  The chunk below arrives at time 777 while the on-time timestamp
  is 111: its first terminator hands over the USNO line and leaves the buffer empty,
  and its second terminator, on the empty buffer, leaves the on-time timestamp at 111,
  as does an on-time character \<open>*\<close> in that place.
\<close>

theorem terminator_after_accepted_line_keeps_old_timestamp:
  "up_buf (modem_receive site (usno_line @ [LF]) 777 in_call) = []
   \<and> up_tstamp (modem_receive site (usno_line @ [LF]) 777 in_call) = 111
   \<and> up_tstamp (modem_receive site (usno_line @ [LF, LF]) 777 in_call) = 111
   \<and> up_tstamp (modem_receive site (usno_line @ [LF, LF]) 777 in_call) \<noteq> 777
   \<and> emitted (modem_receive site (usno_line @ [LF, LF]) 777 in_call) = [usno_line]
   \<and> up_tstamp (modem_receive site (usno_line @ [LF, CHR ''*'']) 777 in_call) = 111
   \<and> up_tstamp (modem_receive site [LF] 777 in_call) = 777"
  by code_simp

text \<open>
  Claim C9: a line that is the single character \<open>#\<close> is ignored by the parser in every
  state and for every message count: no sample is forwarded, the message count does
  not change and no bad reply is reported, although the framer echoes and timestamps
  \<open>#\<close> like \<open>*\<close>; only \<open>*\<close> is accepted as a length-1 line.

  The parser clears the nanoseconds at its entry and does nothing else for \<open>#\<close>.  A
  length-1 line forwards a sample exactly when its character is \<open>*\<close> and a message was
  counted before.
\<close>

theorem lone_hash_ignored:
  "modem_timecode e ''#'' s = s\<lparr>pp_nsec := 0\<rparr>
   \<and> trace (modem_timecode e ''#'' s) = trace s
   \<and> up_msgcnt (modem_timecode e ''#'' s) = up_msgcnt s
   \<and> (forwarded (modem_timecode e [c] s) \<noteq> forwarded s) = (c = CHR ''*'' \<and> 0 < up_msgcnt s)
   \<and> receive_char e (CHR ''#'') s =
       write_fd e ''#'' ''REFCLOCK: modem: write echo fails''
         (s\<lparr>up_buf := up_buf s @ ''#'', up_tstamp := pp_lastrec s\<rparr>)"
  by (simp add: modem_timecode_def Let_def forwarded_def timecode_valid_forwarded
        receive_char_def LF_def iscntrl_c_def)

theorem lone_hash_ignored_witness:
  "modem_timecode site ''#'' (in_call\<lparr>up_msgcnt := 1\<rparr>) = in_call\<lparr>up_msgcnt := 1, pp_nsec := 0\<rparr>
   \<and> forwarded (modem_timecode site ''#'' (in_call\<lparr>up_msgcnt := 1\<rparr>)) = forwarded (in_call\<lparr>up_msgcnt := 1\<rparr>)
   \<and> forwarded (modem_timecode site ''*'' (in_call\<lparr>up_msgcnt := 1\<rparr>)) \<noteq> forwarded (in_call\<lparr>up_msgcnt := 1\<rparr>)"
  using lone_hash_ignored [of site "in_call\<lparr>up_msgcnt := 1\<rparr>" "CHR ''#''"]
        lone_hash_ignored [of site "in_call\<lparr>up_msgcnt := 1\<rparr>" "CHR ''*''"]
  by simp

text \<open>
  Claim C10: when the idle trigger fires, by a poll or by the forced-call flag, while
  the device is open, the handler returns at once and every field of the session is
  unchanged: state, timer, retry index, message count, line buffer and lock; no lock
  file is tried and the device is not opened again.

  The handler is the idle branch of \<open>modem_timeout\<close>: with the device open it returns the
  unit as it got it, trace included.  What its two callers do before they enter it is
  theirs: the timer clears the forced-call flag, the poll routine counts the poll and
  sets the retry index to 0.
\<close>

theorem idle_trigger_device_open:
  assumes "pp_fd s \<noteq> - 1"
  shows "modem_timeout e S_IDLE s = s
         \<and> (up_timer s = 0 \<and> pp_flag1 s \<longrightarrow> modem_timer e s = s\<lparr>pp_flag1 := False\<rparr>)
         \<and> (up_state s = S_IDLE \<and> peer_ttl s \<noteq> MODE_MANUAL
              \<and> (peer_ttl s = MODE_BACKUP \<longrightarrow> sys_peer_free e)
            \<longrightarrow> modem_poll e s = s\<lparr>pp_polls := pp_polls s + 1, up_retry := 0\<rparr>)"
  using assms
  by (auto simp: modem_timeout_def timeout_idle_def modem_timer_def modem_poll_def)

theorem idle_trigger_device_open_witness:
  "pp_fd (unit0\<lparr>pp_fd := 5, up_retry := 2, pp_flag1 := True\<rparr>) \<noteq> - 1
   \<and> modem_timeout site S_IDLE (unit0\<lparr>pp_fd := 5, up_retry := 2, pp_flag1 := True\<rparr>)
       = unit0\<lparr>pp_fd := 5, up_retry := 2, pp_flag1 := True\<rparr>
   \<and> modem_timer site (unit0\<lparr>pp_fd := 5, up_retry := 2, pp_flag1 := True\<rparr>)
       = unit0\<lparr>pp_fd := 5, up_retry := 2, pp_flag1 := False\<rparr>
   \<and> modem_poll site (unit0\<lparr>pp_fd := 5, up_retry := 2, pp_flag1 := True\<rparr>)
       = unit0\<lparr>pp_fd := 5, up_retry := 0, pp_flag1 := True, pp_polls := 1\<rparr>"
proof -
  have h: "pp_fd (unit0\<lparr>pp_fd := 5, up_retry := 2, pp_flag1 := True\<rparr>) \<noteq> - 1" by simp
  from idle_trigger_device_open [OF h, of site] h show ?thesis
    by (simp add: unit0_def MODE_MANUAL_def MODE_BACKUP_def)
qed

end
